theory Spec2Isabelle
  imports Complex_Main "HOL-Library.Multiset"
begin

section \<open>Python values, exceptions and sequencing\<close>

text \<open>
  The exceptions the modelled code can raise. A call that raises is the value \<open>Inl e\<close>;
  a call that returns \<open>v\<close> and leaves the object in state \<open>s\<close> is \<open>Inr (v, s)\<close>.
\<close>

datatype py_error = ValueError | ZeroDivisionError | IndexError

definition bind_e :: "'e + 'a \<Rightarrow> ('a \<Rightarrow> 'e + 'b) \<Rightarrow> 'e + 'b" where
  "bind_e m f = (case m of Inl e \<Rightarrow> Inl e | Inr v \<Rightarrow> f v)"

text \<open>
  Python's \<open>a % b\<close> on integers: the result has the sign of the divisor, as HOL's
  \<open>mod\<close> on \<open>int\<close> has; a zero divisor raises.
\<close>

definition py_mod :: "int \<Rightarrow> int \<Rightarrow> py_error + int" where
  "py_mod a b = (if b = 0 then Inl ZeroDivisionError else Inr (a mod b))"

text \<open>
  Python's \<open>int(a / b)\<close> on integers: the true quotient truncated towards zero; a zero
  divisor raises. The source computes the quotient in double precision: that is the
  exact truncation whenever \<open>|a| < 2^53\<close> (all values of the default 31-bit generator),
  may differ from it in the last digits above, and raises OverflowError when the
  quotient exceeds the range of a double. The model is the exact truncation; no
  statement below is used outside the exact range or depends on the value of the
  quotient there.
\<close>

definition int_truediv :: "int \<Rightarrow> int \<Rightarrow> py_error + int" where
  "int_truediv a b =
     (if b = 0 then Inl ZeroDivisionError else Inr (sgn a * sgn b * (\<bar>a\<bar> div \<bar>b\<bar>)))"

text \<open>
  Python list indexing: an index \<open>i\<close> with \<open>-len \<le> i < 0\<close> counts from the end, an
  index outside \<open>[-len, len)\<close> raises IndexError.
\<close>

definition py_index :: "nat \<Rightarrow> int \<Rightarrow> nat option" where
  "py_index n i =
     (if 0 \<le> i \<and> i < int n then Some (nat i)
      else if - int n \<le> i \<and> i < 0 then Some (nat (int n + i))
      else None)"

definition py_getitem :: "'a list \<Rightarrow> int \<Rightarrow> py_error + 'a" where
  "py_getitem xs i = (case py_index (length xs) i of None \<Rightarrow> Inl IndexError | Some k \<Rightarrow> Inr (xs ! k))"

definition py_setitem :: "'a list \<Rightarrow> int \<Rightarrow> 'a \<Rightarrow> py_error + 'a list" where
  "py_setitem xs i v =
     (case py_index (length xs) i of None \<Rightarrow> Inl IndexError | Some k \<Rightarrow> Inr (xs[k := v]))"

section \<open>core/random/rndgen.py\<close>

definition DEFAULT_MODULUS :: int where "DEFAULT_MODULUS = 2147483647"
definition DEFAULT_MULTIPLIER :: int where "DEFAULT_MULTIPLIER = 48271"
definition DEFAULT_STREAMS :: int where "DEFAULT_STREAMS = 256"
definition DEFAULT_JUMPER :: int where "DEFAULT_JUMPER = 22925"
definition DEFAULT_ISEED :: int where "DEFAULT_ISEED = 123456789"

text \<open>
  The Schrage step shared by \<open>plant_seeds\<close> (with the jumper) and \<open>rnd\<close> (with the
  multiplier), on the seed \<open>s\<close>:
  \<^verbatim>\<open>t = int(a * (s % Q) - R * int(s / Q)); new = t if t > 0 else t + modulus\<close>
\<close>

definition schrage :: "int \<Rightarrow> int \<Rightarrow> int \<Rightarrow> int \<Rightarrow> int \<Rightarrow> py_error + int" where
  "schrage a m Q R s =
     bind_e (py_mod s Q) (\<lambda>lo.
     bind_e (int_truediv s Q) (\<lambda>hi.
       let t = a * lo - R * hi in
       Inr (if t > 0 then t else t + m)))"

subsection \<open>class MarcianiMultiStream\<close>

record MarcianiMultiStream =
  ms_iseed :: int
  ms_seed :: int
  ms_stream :: int
  ms_modulus :: int
  ms_multiplier :: int
  ms_streams :: int
  ms_jumper :: int
  ms_init :: bool
  ms_seeds :: "int list"

text \<open>\<open>get_seed\<close>: \<^verbatim>\<open>return self._seeds[self._stream]\<close>\<close>

definition MarcianiMultiStream_get_seed :: "MarcianiMultiStream \<Rightarrow> py_error + int" where
  "MarcianiMultiStream_get_seed g = py_getitem (ms_seeds g) (ms_stream g)"

text \<open>
  \<open>put_seed(x)\<close>: a seed that is not strictly positive raises ValueError; otherwise
  \<open>x %= modulus\<close> and the seed of the current stream is overwritten.
\<close>

definition MarcianiMultiStream_put_seed ::
  "int \<Rightarrow> MarcianiMultiStream \<Rightarrow> py_error + MarcianiMultiStream" where
  "MarcianiMultiStream_put_seed x g =
     (if x > 0 then
        bind_e (py_mod x (ms_modulus g)) (\<lambda>x'.
        bind_e (py_setitem (ms_seeds g) (ms_stream g) x') (\<lambda>seeds'.
          Inr (g\<lparr>ms_seeds := seeds'\<rparr>)))
      else Inl ValueError)"

text \<open>
  The first statement of \<open>stream(stream_id)\<close>:
  \<^verbatim>\<open>self._stream = stream_id % self._streams\<close>
\<close>

definition select_stream :: "int \<Rightarrow> MarcianiMultiStream \<Rightarrow> py_error + MarcianiMultiStream" where
  "select_stream stream_id g =
     bind_e (py_mod stream_id (ms_streams g)) (\<lambda>k. Inr (g\<lparr>ms_stream := k\<rparr>))"

text \<open>
  The loop of \<open>plant_seeds\<close>, \<^verbatim>\<open>for j in range(1, self._streams)\<close>, over the list of the
  indices still to visit: the seed of stream \<open>j\<close> is the Schrage step with the jumper on
  the seed of stream \<open>j - 1\<close>.
\<close>

fun plant_loop :: "int \<Rightarrow> int \<Rightarrow> int \<Rightarrow> int \<Rightarrow> nat list \<Rightarrow> int list \<Rightarrow> py_error + int list" where
  "plant_loop G M Q R [] seeds = Inr seeds"
| "plant_loop G M Q R (j # js) seeds =
     bind_e (py_getitem seeds (int j - 1)) (\<lambda>prev.
     bind_e (schrage G M Q R prev) (\<lambda>x.
     bind_e (py_setitem seeds (int j) x) (\<lambda>seeds'.
       plant_loop G M Q R js seeds')))"

text \<open>
  \<open>plant_seeds(x)\<close>. It sets \<open>_init\<close> before it calls \<open>self.stream(0)\<close>, so that call
  only selects stream 0 and never plants again.
\<close>

definition MarcianiMultiStream_plant_seeds ::
  "int \<Rightarrow> MarcianiMultiStream \<Rightarrow> py_error + MarcianiMultiStream" where
  "MarcianiMultiStream_plant_seeds x g =
     bind_e (int_truediv (ms_modulus g) (ms_jumper g)) (\<lambda>Q.
     bind_e (py_mod (ms_modulus g) (ms_jumper g)) (\<lambda>R.
       let g1 = g\<lparr>ms_init := True\<rparr>; s = ms_stream g1 in
       bind_e (select_stream 0 g1) (\<lambda>g2.
       bind_e (MarcianiMultiStream_put_seed x g2) (\<lambda>g3.
         let g4 = g3\<lparr>ms_stream := s\<rparr> in
         bind_e (plant_loop (ms_jumper g4) (ms_modulus g4) Q R
                   [1 ..< nat (ms_streams g4)] (ms_seeds g4)) (\<lambda>seeds'.
           Inr (g4\<lparr>ms_seeds := seeds'\<rparr>))))))"

text \<open>
  \<open>stream(stream_id)\<close>: selects the stream, and plants the seeds if that was never done
  and the selected stream is not stream 0.
\<close>

definition MarcianiMultiStream_stream ::
  "int \<Rightarrow> MarcianiMultiStream \<Rightarrow> py_error + MarcianiMultiStream" where
  "MarcianiMultiStream_stream stream_id g =
     bind_e (select_stream stream_id g) (\<lambda>g'.
       if \<not> ms_init g' \<and> ms_stream g' \<noteq> 0
       then MarcianiMultiStream_plant_seeds (ms_iseed g') g'
       else Inr g')"

text \<open>
  The constructor: \<^verbatim>\<open>self._seeds = [int(self._iseed)] * self._streams\<close> (the empty list
  when \<open>streams \<le> 0\<close>), then \<open>plant_seeds(iseed)\<close>.
\<close>

definition MarcianiMultiStream_new ::
  "int \<Rightarrow> int \<Rightarrow> int \<Rightarrow> int \<Rightarrow> int \<Rightarrow> py_error + MarcianiMultiStream" where
  "MarcianiMultiStream_new iseed modulus multiplier streams jumper =
     MarcianiMultiStream_plant_seeds iseed
       \<lparr>ms_iseed = iseed, ms_seed = iseed, ms_stream = 0, ms_modulus = modulus,
        ms_multiplier = multiplier, ms_streams = streams, ms_jumper = jumper,
        ms_init = False, ms_seeds = replicate (nat streams) iseed\<rparr>"

text \<open>
  \<open>rnd()\<close>: one Schrage step with the multiplier on the seed of the current stream. The
  value returned, \<^verbatim>\<open>float(seed / modulus)\<close>, is modelled as the exact quotient. Every
  exception of \<open>rnd\<close> is raised before the seed is assigned: a zero modulus makes \<open>Q\<close>
  zero, so the final division is never the first to fail.
\<close>

definition MarcianiMultiStream_rnd ::
  "MarcianiMultiStream \<Rightarrow> py_error + (real \<times> MarcianiMultiStream)" where
  "MarcianiMultiStream_rnd g =
     bind_e (int_truediv (ms_modulus g) (ms_multiplier g)) (\<lambda>Q.
     bind_e (py_mod (ms_modulus g) (ms_multiplier g)) (\<lambda>R.
     bind_e (py_getitem (ms_seeds g) (ms_stream g)) (\<lambda>s.
     bind_e (schrage (ms_multiplier g) (ms_modulus g) Q R s) (\<lambda>s'.
     bind_e (py_setitem (ms_seeds g) (ms_stream g) s') (\<lambda>seeds'.
       if ms_modulus g = 0 then Inl ZeroDivisionError
       else Inr (real_of_int s' / real_of_int (ms_modulus g), g\<lparr>ms_seeds := seeds'\<rparr>))))))"

text \<open>\<open>n\<close> successive calls of \<open>rnd()\<close>, the values drawn being dropped.\<close>

fun rnd_times :: "nat \<Rightarrow> MarcianiMultiStream \<Rightarrow> py_error + MarcianiMultiStream" where
  "rnd_times 0 g = Inr g"
| "rnd_times (Suc n) g = bind_e (MarcianiMultiStream_rnd g) (\<lambda>(u, g'). rnd_times n g')"

subsection \<open>class MarcianiSingleStream\<close>

record MarcianiSingleStream =
  ss_iseed :: int
  ss_seed :: int
  ss_modulus :: int
  ss_multiplier :: int

definition MarcianiSingleStream_new :: "int \<Rightarrow> int \<Rightarrow> int \<Rightarrow> MarcianiSingleStream" where
  "MarcianiSingleStream_new iseed modulus multiplier =
     \<lparr>ss_iseed = iseed, ss_seed = iseed, ss_modulus = modulus, ss_multiplier = multiplier\<rparr>"

definition MarcianiSingleStream_get_seed :: "MarcianiSingleStream \<Rightarrow> int" where
  "MarcianiSingleStream_get_seed g = ss_seed g"

text \<open>
  \<open>put_seed(x)\<close> of the single-stream generator: \<^verbatim>\<open>x %= self._modulus\<close> rebinds the
  local \<open>x\<close> only, and the method ends there.
\<close>

definition MarcianiSingleStream_put_seed ::
  "int \<Rightarrow> MarcianiSingleStream \<Rightarrow> py_error + MarcianiSingleStream" where
  "MarcianiSingleStream_put_seed x g =
     (if x > 0 then bind_e (py_mod x (ss_modulus g)) (\<lambda>x'. Inr g)
      else Inl ValueError)"

subsection \<open>The invariant of a constructed multi-stream generator\<close>

text \<open>
  What the constructor establishes and every method keeps: a non-zero modulus (the
  constructor's \<open>put_seed\<close> divides by it), one seed per stream, and a current stream
  that indexes one of them.
\<close>

definition gen_ok :: "MarcianiMultiStream \<Rightarrow> bool" where
  "gen_ok g \<longleftrightarrow>
     ms_modulus g \<noteq> 0 \<and> 0 < ms_streams g \<and> length (ms_seeds g) = nat (ms_streams g) \<and>
     0 \<le> ms_stream g \<and> ms_stream g < ms_streams g"

text \<open>A three-stream generator with the default modulus and multiplier, stream 1 selected.\<close>

definition example_gen :: MarcianiMultiStream where
  "example_gen = \<lparr>ms_iseed = 1, ms_seed = 1, ms_stream = 1, ms_modulus = 2147483647,
      ms_multiplier = 48271, ms_streams = 3, ms_jumper = 22925, ms_init = True,
      ms_seeds = [1, 22925, 525555625]\<rparr>"

subsection \<open>The Lehmer recurrence of the default generator\<close>

text \<open>
  The representative of \<open>x\<close> modulo \<open>2^31 - 1\<close> in the range \<open>1 .. 2^31 - 1\<close>, the range
  in which \<open>rnd\<close> keeps a seed.
\<close>

definition lehmer_norm :: "int \<Rightarrow> int" where
  "lehmer_norm x = (x - 1) mod 2147483647 + 1"

section \<open>core/simulation/model/taskgen.py\<close>

definition STREAM_ARRIVAL_TYPE :: int where "STREAM_ARRIVAL_TYPE = 100"
definition STREAM_ARRIVAL_TIME :: int where "STREAM_ARRIVAL_TIME = 101"

text \<open>The two concrete members of \<open>TaskScope\<close> (core/simulation/model/scope.py).\<close>

datatype TaskScope = TASK_1 | TASK_2

text \<open>
  Modelled from the spec: \<open>exponential\<close> of core/random/rndvar.py is not among the
  sources; section 4.4 gives the inter-arrival time as \<open>-mean * ln(1 - u)\<close>.
\<close>

definition exponential :: "real \<Rightarrow> real \<Rightarrow> real" where
  "exponential m u = - m * ln (1 - u)"

text \<open>
  The fields of \<open>SimpleTaskgen\<close> that \<open>_generate_exponential\<close> reads: the generator, the
  total arrival rate and the probability of a task of type 1.
\<close>

record SimpleTaskgen =
  tg_rndgen :: MarcianiMultiStream
  tg_r_tot :: real
  tg_p1 :: real

text \<open>
  \<open>_generate_exponential(t_clock)\<close>:
  \<^verbatim>\<open>self.rndgen.stream(STREAM_ARRIVAL_TYPE)
  u = self.rndgen.rnd()
  tsk = TaskScope.TASK_1 if u <= self.p1 else TaskScope.TASK_2
  t_event = t_clock + exponential(m=(1.0/self.r_tot), u=self.rndgen.rnd())
  return tsk, t_event\<close>
  The argument \<open>m\<close> is evaluated before the second draw, so a zero total rate raises
  between the two draws. \<open>STREAM_ARRIVAL_TIME\<close> is never selected.
\<close>

definition SimpleTaskgen_generate_exponential ::
  "real \<Rightarrow> SimpleTaskgen \<Rightarrow> py_error + ((TaskScope \<times> real) \<times> SimpleTaskgen)" where
  "SimpleTaskgen_generate_exponential t_clock tg =
     bind_e (MarcianiMultiStream_stream STREAM_ARRIVAL_TYPE (tg_rndgen tg)) (\<lambda>g1.
     bind_e (MarcianiMultiStream_rnd g1) (\<lambda>(u, g2).
       let tsk = (if u \<le> tg_p1 tg then TASK_1 else TASK_2) in
       if tg_r_tot tg = 0 then Inl ZeroDivisionError
       else
         bind_e (MarcianiMultiStream_rnd g2) (\<lambda>(u2, g3).
           Inr ((tsk, t_clock + exponential (1 / tg_r_tot tg) u2), tg\<lparr>tg_rndgen := g3\<rparr>))))"

section \<open>core/simulation/model/calendar.py\<close>

text \<open>
  Modelled from the spec: \<open>SimpleEvent\<close> (core/simulation/model/event.py) is not among
  the sources. Section 3 gives an event a type and a time, immutable, and says that
  identity, not value, is used for cancellation: \<open>ev_id\<close> stands for the identity of the
  object, so that two events with the same type and time are still two events. The
  type of the event types and the type of the times are left open; times are only
  compared.
\<close>

record ('k, 't) SimpleEvent =
  ev_id :: nat
  ev_type :: 'k
  ev_time :: 't

text \<open>
  A call on the calendar either returns or stays blocked for ever inside
  \<open>PriorityQueue.get()\<close>, which waits for an entry when the queue is empty.
\<close>

datatype 'a call = Returns 'a | Blocks

record ('k, 't) NextEventCalendar =
  cal_clock :: 't
  cal_stop :: 't
  cal_arrival_types :: "'k set"
  cal_events :: "('k, 't) SimpleEvent list"
  cal_ignore :: "('k, 't) SimpleEvent set"

definition NextEventCalendar_new ::
  "'t \<Rightarrow> 't \<Rightarrow> 'k set \<Rightarrow> ('k, 't) NextEventCalendar" where
  "NextEventCalendar_new t_clock t_stop arrival_types =
     \<lparr>cal_clock = t_clock, cal_stop = t_stop, cal_arrival_types = arrival_types,
      cal_events = [], cal_ignore = {}\<rparr>"

text \<open>
  The priority queue holds the entries \<open>(ev.time, ev)\<close>; it is the list of the queued
  events in the order in which \<open>get()\<close> hands them out. \<open>put\<close> never blocks or raises (the
  queue is unbounded). Modelled from the spec: among entries of equal time the order is
  that of insertion (section 4.2), the comparison of two events being part of the
  absent \<open>SimpleEvent\<close>.
\<close>

fun pq_put :: "('k, 't::linorder) SimpleEvent \<Rightarrow> ('k, 't) SimpleEvent list \<Rightarrow>
    ('k, 't) SimpleEvent list" where
  "pq_put e [] = [e]"
| "pq_put e (x # xs) = (if ev_time e < ev_time x then e # x # xs else x # pq_put e xs)"

definition get_clock :: "('k, 't) NextEventCalendar \<Rightarrow> 't" where
  "get_clock c = cal_clock c"

definition set_clock :: "'t \<Rightarrow> ('k, 't) NextEventCalendar \<Rightarrow> ('k, 't) NextEventCalendar" where
  "set_clock t c = c\<lparr>cal_clock := t\<rparr>"

text \<open>
  \<open>schedule(ev)\<close>:
  \<^verbatim>\<open>if ev.type in self._arrival_types and ev.time >= self._stop: return False
  else: self._events.put((ev.time, ev)); return True\<close>
\<close>

definition schedule ::
  "('k, 't::linorder) SimpleEvent \<Rightarrow> ('k, 't) NextEventCalendar \<Rightarrow>
     bool \<times> ('k, 't) NextEventCalendar" where
  "schedule ev c =
     (if ev_type ev \<in> cal_arrival_types c \<and> ev_time ev \<ge> cal_stop c then (False, c)
      else (True, c\<lparr>cal_events := pq_put ev (cal_events c)\<rparr>))"

text \<open>\<open>unschedule(*events)\<close>: every event given is added to the set of events to ignore.\<close>

definition unschedule ::
  "('k, 't) SimpleEvent list \<Rightarrow> ('k, 't) NextEventCalendar \<Rightarrow> ('k, 't) NextEventCalendar" where
  "unschedule evs c = c\<lparr>cal_ignore := fold insert evs (cal_ignore c)\<rparr>"

text \<open>
  The loop of \<open>get_next_event\<close>, entered with the candidate already taken from the queue:
  \<^verbatim>\<open>while candidate in self._ignore:
      self._ignore.discard(candidate)
      candidate = self._events.get()[1]\<close>
  The loop does not test whether the queue is empty before it calls \<open>get()\<close>.
\<close>

fun skip_ignored ::
  "('k, 't) SimpleEvent \<Rightarrow> ('k, 't) SimpleEvent list \<Rightarrow> ('k, 't) SimpleEvent set \<Rightarrow>
     (('k, 't) SimpleEvent \<times> ('k, 't) SimpleEvent list \<times> ('k, 't) SimpleEvent set) call" where
  "skip_ignored candidate [] ign =
     (if candidate \<in> ign then Blocks else Returns (candidate, [], ign))"
| "skip_ignored candidate (x # xs) ign =
     (if candidate \<in> ign then skip_ignored x xs (ign - {candidate})
      else Returns (candidate, x # xs, ign))"

text \<open>
  \<open>get_next_event()\<close>: None when the queue is empty at the call; otherwise the first
  event taken from the queue that is not to be ignored, the clock being set to its time.
\<close>

definition get_next_event ::
  "('k, 't) NextEventCalendar \<Rightarrow>
     (('k, 't) SimpleEvent option \<times> ('k, 't) NextEventCalendar) call" where
  "get_next_event c =
     (case cal_events c of
        [] \<Rightarrow> Returns (None, c)
      | x # xs \<Rightarrow>
          (case skip_ignored x xs (cal_ignore c) of
             Blocks \<Rightarrow> Blocks
           | Returns (candidate, q, ign) \<Rightarrow>
               Returns (Some candidate,
                 set_clock (ev_time candidate) (c\<lparr>cal_events := q, cal_ignore := ign\<rparr>))))"

definition empty_calendar :: "('k, 't) NextEventCalendar \<Rightarrow> bool" where
  "empty_calendar c \<longleftrightarrow> cal_events c = []"

text \<open>
  Concrete inputs: a calendar with clock 0, horizon 1000 and the arrival type 0, an
  arrival past the horizon, a completion past the horizon, and two early events.
\<close>

definition example_calendar :: "(nat, int) NextEventCalendar" where
  "example_calendar = NextEventCalendar_new 0 1000 {0}"

definition late_arrival :: "(nat, int) SimpleEvent" where
  "late_arrival = \<lparr>ev_id = 1, ev_type = 0, ev_time = 1000\<rparr>"

definition late_completion :: "(nat, int) SimpleEvent" where
  "late_completion = \<lparr>ev_id = 2, ev_type = 1, ev_time = 1200\<rparr>"

definition early_completion :: "(nat, int) SimpleEvent" where
  "early_completion = \<lparr>ev_id = 3, ev_type = 1, ev_time = 5\<rparr>"

section \<open>core/simulation/model/statistics.py\<close>

text \<open>
  Modelled from the spec: \<open>BatchedMeasure\<close>, \<open>BatchedSampleStatistic\<close> and
  \<open>BatchedSamplePathStatistic\<close> (core/statistics/batch_means.py) are not among the
  sources. Sections 3 and 4.5 give each of them a growing ordered sequence of
  closed-batch values and one open accumulator; \<open>register_batch\<close> seals the open batch
  as one data point, appends it and resets the accumulator, \<open>discard_batch\<close> drops the
  open batch without sealing it. What the open accumulator holds, the value sealed
  from it and its reset value differ between the three classes and are parameters.
\<close>

record 'a Batched =
  b_closed :: "real list"
  b_open :: 'a

record 'a Batched_kind =
  sealed_value :: "'a \<Rightarrow> real"
  reset_value :: 'a

definition Batched_new :: "'a Batched_kind \<Rightarrow> 'a Batched" where
  "Batched_new k = \<lparr>b_closed = [], b_open = reset_value k\<rparr>"

definition Batched_register_batch :: "'a Batched_kind \<Rightarrow> 'a Batched \<Rightarrow> 'a Batched" where
  "Batched_register_batch k b =
     \<lparr>b_closed = b_closed b @ [sealed_value k (b_open b)], b_open = reset_value k\<rparr>"

definition Batched_discard_batch :: "'a Batched_kind \<Rightarrow> 'a Batched \<Rightarrow> 'a Batched" where
  "Batched_discard_batch k b = b\<lparr>b_open := reset_value k\<rparr>"

text \<open>The group \<open>BatchStatistics\<close>: four measures, two sample statistics, one sample-path
  statistic and the number of batches.\<close>

record ('m, 's, 'p) BatchStatistics =
  bs_arrived :: "'m Batched"
  bs_completed :: "'m Batched"
  bs_switched :: "'m Batched"
  bs_service :: "'m Batched"
  bs_n :: "'s Batched"
  bs_response :: "'s Batched"
  bs_throughput :: "'p Batched"
  bs_n_batches :: int

record ('m, 's, 'p) Batched_kinds =
  BatchedMeasure :: "'m Batched_kind"
  BatchedSampleStatistic :: "'s Batched_kind"
  BatchedSamplePathStatistic :: "'p Batched_kind"

definition BatchStatistics_new ::
  "('m, 's, 'p) Batched_kinds \<Rightarrow> ('m, 's, 'p) BatchStatistics" where
  "BatchStatistics_new K =
     \<lparr>bs_arrived = Batched_new (BatchedMeasure K),
      bs_completed = Batched_new (BatchedMeasure K),
      bs_switched = Batched_new (BatchedMeasure K),
      bs_service = Batched_new (BatchedMeasure K),
      bs_n = Batched_new (BatchedSampleStatistic K),
      bs_response = Batched_new (BatchedSampleStatistic K),
      bs_throughput = Batched_new (BatchedSamplePathStatistic K),
      bs_n_batches = 0\<rparr>"

text \<open>\<open>BatchStatistics.register_batch\<close>: \<open>register_batch\<close> on each of the seven
  accumulators, then \<^verbatim>\<open>self.n_batches += 1\<close>.\<close>

definition BatchStatistics_register_batch ::
  "('m, 's, 'p) Batched_kinds \<Rightarrow> ('m, 's, 'p) BatchStatistics \<Rightarrow> ('m, 's, 'p) BatchStatistics" where
  "BatchStatistics_register_batch K s =
     s\<lparr>bs_arrived := Batched_register_batch (BatchedMeasure K) (bs_arrived s),
       bs_completed := Batched_register_batch (BatchedMeasure K) (bs_completed s),
       bs_switched := Batched_register_batch (BatchedMeasure K) (bs_switched s),
       bs_service := Batched_register_batch (BatchedMeasure K) (bs_service s),
       bs_n := Batched_register_batch (BatchedSampleStatistic K) (bs_n s),
       bs_response := Batched_register_batch (BatchedSampleStatistic K) (bs_response s),
       bs_throughput := Batched_register_batch (BatchedSamplePathStatistic K) (bs_throughput s),
       bs_n_batches := bs_n_batches s + 1\<rparr>"

text \<open>\<open>BatchStatistics.discard_batch\<close>: \<open>discard_batch\<close> on each of the seven
  accumulators; \<open>n_batches\<close> is not touched.\<close>

definition BatchStatistics_discard_batch ::
  "('m, 's, 'p) Batched_kinds \<Rightarrow> ('m, 's, 'p) BatchStatistics \<Rightarrow> ('m, 's, 'p) BatchStatistics" where
  "BatchStatistics_discard_batch K s =
     s\<lparr>bs_arrived := Batched_discard_batch (BatchedMeasure K) (bs_arrived s),
       bs_completed := Batched_discard_batch (BatchedMeasure K) (bs_completed s),
       bs_switched := Batched_discard_batch (BatchedMeasure K) (bs_switched s),
       bs_service := Batched_discard_batch (BatchedMeasure K) (bs_service s),
       bs_n := Batched_discard_batch (BatchedSampleStatistic K) (bs_n s),
       bs_response := Batched_discard_batch (BatchedSampleStatistic K) (bs_response s),
       bs_throughput := Batched_discard_batch (BatchedSamplePathStatistic K) (bs_throughput s)\<rparr>"

text \<open>The numbers of sealed batches held by the seven accumulators, in the order of the
  fields.\<close>

definition sealed_counts :: "('m, 's, 'p) BatchStatistics \<Rightarrow> nat list" where
  "sealed_counts s =
     [length (b_closed (bs_arrived s)), length (b_closed (bs_completed s)),
      length (b_closed (bs_switched s)), length (b_closed (bs_service s)),
      length (b_closed (bs_n s)), length (b_closed (bs_response s)),
      length (b_closed (bs_throughput s))]"

text \<open>A sequence of calls on the group.\<close>

datatype batch_call = Register_batch | Discard_batch

fun batch_calls ::
  "('m, 's, 'p) Batched_kinds \<Rightarrow> batch_call list \<Rightarrow> ('m, 's, 'p) BatchStatistics \<Rightarrow>
     ('m, 's, 'p) BatchStatistics" where
  "batch_calls K [] s = s"
| "batch_calls K (Register_batch # cs) s = batch_calls K cs (BatchStatistics_register_batch K s)"
| "batch_calls K (Discard_batch # cs) s = batch_calls K cs (BatchStatistics_discard_batch K s)"

section \<open>core/simulations/cloud/model/system.py\<close>

text \<open>
  The classes \<open>SimpleCloudLet\<close> and \<open>SimpleCloud\<close> and the random generator they share are
  not among the sources. Their joint state is a value of an arbitrary type \<open>'w\<close>, and
  the attributes and methods of theirs that \<open>SimpleCloudletCloudSystem\<close> uses are
  parameters: four attributes of the Cloudlet, and for each method that returns a
  completion event a function from the event time and the state to the event and the
  new state. The system is studied for every choice of these parameters.
\<close>

record ('k, 'w) tiers =
  cloudlet_n_1 :: "'w \<Rightarrow> int"
  cloudlet_n_2 :: "'w \<Rightarrow> int"
  cloudlet_n_servers :: "'w \<Rightarrow> int"
  cloudlet_threshold :: "'w \<Rightarrow> int"
  cloudlet_submit_arrival_task_1 :: "real \<Rightarrow> 'w \<Rightarrow> ('k, real) SimpleEvent \<times> 'w"
  cloudlet_submit_arrival_task_2 :: "real \<Rightarrow> 'w \<Rightarrow> ('k, real) SimpleEvent \<times> 'w"
  cloudlet_submit_removal_task_2 :: "real \<Rightarrow> 'w \<Rightarrow> ('k, real) SimpleEvent \<times> 'w"
  cloudlet_submit_completion_task_1 :: "real \<Rightarrow> 'w \<Rightarrow> 'w"
  cloudlet_submit_completion_task_2 :: "real \<Rightarrow> 'w \<Rightarrow> 'w"
  cloud_submit_arrival_task_1 :: "real \<Rightarrow> 'w \<Rightarrow> ('k, real) SimpleEvent \<times> 'w"
  cloud_submit_arrival_task_2 :: "real \<Rightarrow> 'w \<Rightarrow> ('k, real) SimpleEvent \<times> 'w"
  cloud_submit_restart_task_2 :: "real \<Rightarrow> 'w \<Rightarrow> ('k, real) SimpleEvent \<times> 'w"
  cloud_submit_completion_task_1 :: "real \<Rightarrow> 'w \<Rightarrow> 'w"
  cloud_submit_completion_task_2 :: "real \<Rightarrow> 'w \<Rightarrow> 'w"

text \<open>
  The state of the system. \<open>response_time\<close> is a \<open>SimpleSampleStatistics\<close>, absent from
  the sources; the system only adds values to it, and it is kept as the list of the
  values added.
\<close>

record 'w SimpleCloudletCloudSystem =
  sys_tiers :: 'w
  sys_n_1 :: int
  sys_n_2 :: int
  sys_n_arrival_1 :: int
  sys_n_arrival_2 :: int
  sys_n_served_1 :: int
  sys_n_served_2 :: int
  sys_response_time :: "real list"
  sys_t_last_event :: real
  sys_t_last_completion :: real
  sys_area_service :: real

definition SimpleCloudletCloudSystem_new :: "'w \<Rightarrow> 'w SimpleCloudletCloudSystem" where
  "SimpleCloudletCloudSystem_new w =
     \<lparr>sys_tiers = w, sys_n_1 = 0, sys_n_2 = 0, sys_n_arrival_1 = 0, sys_n_arrival_2 = 0,
      sys_n_served_1 = 0, sys_n_served_2 = 0, sys_response_time = [],
      sys_t_last_event = 0, sys_t_last_completion = 0, sys_area_service = 0\<rparr>"

definition system_empty :: "'w SimpleCloudletCloudSystem \<Rightarrow> bool" where
  "system_empty s \<longleftrightarrow> sys_n_1 s + sys_n_2 s = 0"

text \<open>
  The lines every submission has under "Update meta":
  \<^verbatim>\<open>if self.n_1 + self.n_2 > 0: self.area_service += (event_time - self.t_last_event)
  self.t_last_event = event_time\<close>
\<close>

definition update_meta :: "real \<Rightarrow> 'w SimpleCloudletCloudSystem \<Rightarrow> 'w SimpleCloudletCloudSystem" where
  "update_meta event_time s =
     (if sys_n_1 s + sys_n_2 s > 0
      then s\<lparr>sys_area_service := sys_area_service s + (event_time - sys_t_last_event s)\<rparr>
      else s)\<lparr>sys_t_last_event := event_time\<rparr>"

text \<open>
  The end of every branch of an arrival: the tier method has returned the completion
  event and the new state of the tiers, and the service time is added to the response
  time statistic.
\<close>

definition record_response ::
  "real \<Rightarrow> ('k, real) SimpleEvent \<Rightarrow> 'w \<Rightarrow> 'w SimpleCloudletCloudSystem \<Rightarrow>
     'w SimpleCloudletCloudSystem" where
  "record_response event_time completion_event w s =
     s\<lparr>sys_tiers := w,
       sys_response_time := sys_response_time s @ [ev_time completion_event - event_time]\<rparr>"

text \<open>
  \<open>submit_arrival_task_1(event_time)\<close>: the result is the triple of the completion
  event of the task, the completion event of a restarted task of type 2 or None, and
  the completion event to ignore or None.
\<close>

definition submit_arrival_task_1 ::
  "('k, 'w) tiers \<Rightarrow> real \<Rightarrow> 'w SimpleCloudletCloudSystem \<Rightarrow>
     (('k, real) SimpleEvent \<times> ('k, real) SimpleEvent option \<times> ('k, real) SimpleEvent option)
       \<times> 'w SimpleCloudletCloudSystem" where
  "submit_arrival_task_1 T event_time s0 =
     (let s = update_meta event_time
                (s0\<lparr>sys_n_1 := sys_n_1 s0 + 1, sys_n_arrival_1 := sys_n_arrival_1 s0 + 1\<rparr>);
          w = sys_tiers s
      in
        if cloudlet_n_1 T w = cloudlet_n_servers T w then
          (let (completion_event, w1) = cloud_submit_arrival_task_1 T event_time w
           in ((completion_event, None, None), record_response event_time completion_event w1 s))
        else if cloudlet_n_1 T w + cloudlet_n_2 T w < cloudlet_threshold T w then
          (let (completion_event, w1) = cloudlet_submit_arrival_task_1 T event_time w
           in ((completion_event, None, None), record_response event_time completion_event w1 s))
        else if cloudlet_n_2 T w > 0 then
          (let (completion_to_ignore, w1) = cloudlet_submit_removal_task_2 T event_time w;
               (completion_restart_event, w2) = cloud_submit_restart_task_2 T event_time w1;
               (completion_event, w3) = cloudlet_submit_arrival_task_1 T event_time w2
           in ((completion_event, Some completion_restart_event, Some completion_to_ignore),
               record_response event_time completion_event w3 s))
        else
          (let (completion_event, w1) = cloudlet_submit_arrival_task_1 T event_time w
           in ((completion_event, None, None), record_response event_time completion_event w1 s)))"

definition submit_arrival_task_2 ::
  "('k, 'w) tiers \<Rightarrow> real \<Rightarrow> 'w SimpleCloudletCloudSystem \<Rightarrow>
     ('k, real) SimpleEvent \<times> 'w SimpleCloudletCloudSystem" where
  "submit_arrival_task_2 T event_time s0 =
     (let s = update_meta event_time
                (s0\<lparr>sys_n_2 := sys_n_2 s0 + 1, sys_n_arrival_2 := sys_n_arrival_2 s0 + 1\<rparr>);
          w = sys_tiers s
      in
        if cloudlet_n_1 T w + cloudlet_n_2 T w \<ge> cloudlet_threshold T w then
          (let (completion_event, w1) = cloud_submit_arrival_task_2 T event_time w
           in (completion_event, record_response event_time completion_event w1 s))
        else
          (let (completion_event, w1) = cloudlet_submit_arrival_task_2 T event_time w
           in (completion_event, record_response event_time completion_event w1 s)))"

text \<open>
  The four completions: the counter of the class goes down by one, the served counter
  up by one, the times are updated, and the tier is told.
\<close>

definition submit_completion_cloudlet_task_1 ::
  "('k, 'w) tiers \<Rightarrow> real \<Rightarrow> 'w SimpleCloudletCloudSystem \<Rightarrow> 'w SimpleCloudletCloudSystem" where
  "submit_completion_cloudlet_task_1 T event_time s0 =
     (let s = update_meta event_time
                (s0\<lparr>sys_n_1 := sys_n_1 s0 - 1, sys_n_served_1 := sys_n_served_1 s0 + 1\<rparr>)
      in s\<lparr>sys_t_last_completion := event_time,
           sys_tiers := cloudlet_submit_completion_task_1 T event_time (sys_tiers s)\<rparr>)"

definition submit_completion_cloudlet_task_2 ::
  "('k, 'w) tiers \<Rightarrow> real \<Rightarrow> 'w SimpleCloudletCloudSystem \<Rightarrow> 'w SimpleCloudletCloudSystem" where
  "submit_completion_cloudlet_task_2 T event_time s0 =
     (let s = update_meta event_time
                (s0\<lparr>sys_n_2 := sys_n_2 s0 - 1, sys_n_served_2 := sys_n_served_2 s0 + 1\<rparr>)
      in s\<lparr>sys_t_last_completion := event_time,
           sys_tiers := cloudlet_submit_completion_task_2 T event_time (sys_tiers s)\<rparr>)"

definition submit_completion_cloud_task_1 ::
  "('k, 'w) tiers \<Rightarrow> real \<Rightarrow> 'w SimpleCloudletCloudSystem \<Rightarrow> 'w SimpleCloudletCloudSystem" where
  "submit_completion_cloud_task_1 T event_time s0 =
     (let s = update_meta event_time
                (s0\<lparr>sys_n_1 := sys_n_1 s0 - 1, sys_n_served_1 := sys_n_served_1 s0 + 1\<rparr>)
      in s\<lparr>sys_t_last_completion := event_time,
           sys_tiers := cloud_submit_completion_task_1 T event_time (sys_tiers s)\<rparr>)"

definition submit_completion_cloud_task_2 ::
  "('k, 'w) tiers \<Rightarrow> real \<Rightarrow> 'w SimpleCloudletCloudSystem \<Rightarrow> 'w SimpleCloudletCloudSystem" where
  "submit_completion_cloud_task_2 T event_time s0 =
     (let s = update_meta event_time
                (s0\<lparr>sys_n_2 := sys_n_2 s0 - 1, sys_n_served_2 := sys_n_served_2 s0 + 1\<rparr>)
      in s\<lparr>sys_t_last_completion := event_time,
           sys_tiers := cloud_submit_completion_task_2 T event_time (sys_tiers s)\<rparr>)"

subsection \<open>Sequences of submissions\<close>

datatype submission =
    Arrival_task_1 real
  | Arrival_task_2 real
  | Completion_cloudlet_task_1 real
  | Completion_cloudlet_task_2 real
  | Completion_cloud_task_1 real
  | Completion_cloud_task_2 real

fun submit ::
  "('k, 'w) tiers \<Rightarrow> submission \<Rightarrow> 'w SimpleCloudletCloudSystem \<Rightarrow> 'w SimpleCloudletCloudSystem" where
  "submit T (Arrival_task_1 t) s = snd (submit_arrival_task_1 T t s)"
| "submit T (Arrival_task_2 t) s = snd (submit_arrival_task_2 T t s)"
| "submit T (Completion_cloudlet_task_1 t) s = submit_completion_cloudlet_task_1 T t s"
| "submit T (Completion_cloudlet_task_2 t) s = submit_completion_cloudlet_task_2 T t s"
| "submit T (Completion_cloud_task_1 t) s = submit_completion_cloud_task_1 T t s"
| "submit T (Completion_cloud_task_2 t) s = submit_completion_cloud_task_2 T t s"

fun submit_all ::
  "('k, 'w) tiers \<Rightarrow> submission list \<Rightarrow> 'w SimpleCloudletCloudSystem \<Rightarrow>
     'w SimpleCloudletCloudSystem" where
  "submit_all T [] s = s"
| "submit_all T (x # xs) s = submit_all T xs (submit T x s)"

text \<open>The change a submission makes to the number of tasks of class 1 and of class 2
  that have arrived and not completed.\<close>

fun delta_1 :: "submission \<Rightarrow> int" where
  "delta_1 (Arrival_task_1 t) = 1"
| "delta_1 (Completion_cloudlet_task_1 t) = - 1"
| "delta_1 (Completion_cloud_task_1 t) = - 1"
| "delta_1 _ = 0"

fun delta_2 :: "submission \<Rightarrow> int" where
  "delta_2 (Arrival_task_2 t) = 1"
| "delta_2 (Completion_cloudlet_task_2 t) = - 1"
| "delta_2 (Completion_cloud_task_2 t) = - 1"
| "delta_2 _ = 0"

definition arrivals_1 :: "submission list \<Rightarrow> int" where
  "arrivals_1 xs = int (length (filter (\<lambda>x. delta_1 x = 1) xs))"

definition completions_1 :: "submission list \<Rightarrow> int" where
  "completions_1 xs = int (length (filter (\<lambda>x. delta_1 x = - 1) xs))"

definition arrivals_2 :: "submission list \<Rightarrow> int" where
  "arrivals_2 xs = int (length (filter (\<lambda>x. delta_2 x = 1) xs))"

definition completions_2 :: "submission list \<Rightarrow> int" where
  "completions_2 xs = int (length (filter (\<lambda>x. delta_2 x = - 1) xs))"

text \<open>
  Every completion of a class is matched by an earlier arrival of that class: with
  \<open>b1\<close> and \<open>b2\<close> tasks of the two classes outstanding, a completion needs an
  outstanding task of its class.
\<close>

fun matched :: "int \<Rightarrow> int \<Rightarrow> submission list \<Rightarrow> bool" where
  "matched b1 b2 [] \<longleftrightarrow> True"
| "matched b1 b2 (x # xs) \<longleftrightarrow>
     0 \<le> b1 + delta_1 x \<and> 0 \<le> b2 + delta_2 x \<and> matched (b1 + delta_1 x) (b2 + delta_2 x) xs"

subsection \<open>A concrete pair of tiers\<close>

text \<open>
  Concrete parameters, for use as an input: the state of the tiers is the pair of the
  Cloudlet's two counters, the Cloudlet has 3 servers and threshold 2, every service
  takes one unit of time, a restart two, and the type of an event is a number.
\<close>

definition example_tiers :: "(nat, int \<times> int) tiers" where
  "example_tiers =
     \<lparr>cloudlet_n_1 = fst, cloudlet_n_2 = snd,
      cloudlet_n_servers = (\<lambda>w. 3), cloudlet_threshold = (\<lambda>w. 2),
      cloudlet_submit_arrival_task_1 =
        (\<lambda>t (n1, n2). (\<lparr>ev_id = 10, ev_type = 1, ev_time = t + 1\<rparr>, (n1 + 1, n2))),
      cloudlet_submit_arrival_task_2 =
        (\<lambda>t (n1, n2). (\<lparr>ev_id = 20, ev_type = 2, ev_time = t + 1\<rparr>, (n1, n2 + 1))),
      cloudlet_submit_removal_task_2 =
        (\<lambda>t (n1, n2). (\<lparr>ev_id = 20, ev_type = 2, ev_time = t + 1\<rparr>, (n1, n2 - 1))),
      cloudlet_submit_completion_task_1 = (\<lambda>t (n1, n2). (n1 - 1, n2)),
      cloudlet_submit_completion_task_2 = (\<lambda>t (n1, n2). (n1, n2 - 1)),
      cloud_submit_arrival_task_1 =
        (\<lambda>t w. (\<lparr>ev_id = 30, ev_type = 3, ev_time = t + 1\<rparr>, w)),
      cloud_submit_arrival_task_2 =
        (\<lambda>t w. (\<lparr>ev_id = 40, ev_type = 4, ev_time = t + 1\<rparr>, w)),
      cloud_submit_restart_task_2 =
        (\<lambda>t w. (\<lparr>ev_id = 41, ev_type = 4, ev_time = t + 2\<rparr>, w)),
      cloud_submit_completion_task_1 = (\<lambda>t w. w),
      cloud_submit_completion_task_2 = (\<lambda>t w. w)\<rparr>"

text \<open>The system after an arrival of each class, both admitted to the Cloudlet.\<close>

definition example_system :: "(int \<times> int) SimpleCloudletCloudSystem" where
  "example_system =
     submit_all example_tiers [Arrival_task_1 2, Arrival_task_2 4]
       (SimpleCloudletCloudSystem_new (0, 0))"

text \<open>Four submissions: two arrivals of class 1, one of class 2, one completion of class 1.\<close>

definition example_submissions :: "submission list" where
  "example_submissions =
     [Arrival_task_1 2, Arrival_task_2 4, Arrival_task_1 5, Completion_cloudlet_task_1 6]"


section \<open>Properties of the generators\<close>

lemma bind_e_Inl [simp]: "bind_e (Inl e) f = Inl e"
  by (simp add: bind_e_def)

lemma bind_e_Inr [simp]: "bind_e (Inr v) f = f v"
  by (simp add: bind_e_def)

lemma bind_e_eq_Inr: "bind_e m f = Inr r \<longleftrightarrow> (\<exists>v. m = Inr v \<and> f v = Inr r)"
  by (cases m) simp_all

lemma py_index_in_range: "0 \<le> i \<Longrightarrow> i < int n \<Longrightarrow> py_index n i = Some (nat i)"
  by (simp add: py_index_def)

lemma py_index_bound: "py_index n i = Some k \<Longrightarrow> k < n"
  by (auto simp: py_index_def split: if_splits)

lemma py_setitem_Inr:
  "py_setitem xs i v = Inr ys \<longleftrightarrow> (\<exists>k. py_index (length xs) i = Some k \<and> ys = xs[k := v])"
  by (auto simp: py_setitem_def split: option.splits)

lemma example_gen_ok: "gen_ok example_gen"
  by (simp add: gen_ok_def example_gen_def)

text \<open>
  C7. A call of \<open>rnd()\<close> that returns changes the seed list only at the position of the
  current stream: every other stream keeps its seed, and no seed is added or dropped.
  (A call that raises does so before any assignment.)
\<close>

theorem rnd_frame:
  assumes "MarcianiMultiStream_rnd g = Inr (u, g')"
    and "py_index (length (ms_seeds g)) (ms_stream g) = Some i"
    and "j \<noteq> i"
  shows "ms_seeds g' ! j = ms_seeds g ! j \<and> length (ms_seeds g') = length (ms_seeds g)"
  using assms
  by (auto simp: MarcianiMultiStream_rnd_def bind_e_eq_Inr py_setitem_Inr split: if_splits)

theorem rnd_frame_witness:
  "MarcianiMultiStream_rnd example_gen =
     Inr (1106612675 / 2147483647, example_gen\<lparr>ms_seeds := [1, 1106612675, 525555625]\<rparr>) \<and>
   py_index (length (ms_seeds example_gen)) (ms_stream example_gen) = Some 1 \<and>
   ms_seeds (example_gen\<lparr>ms_seeds := [1, 1106612675, 525555625]\<rparr>) ! 0 = ms_seeds example_gen ! 0 \<and>
   ms_seeds (example_gen\<lparr>ms_seeds := [1, 1106612675, 525555625]\<rparr>) ! 2 = ms_seeds example_gen ! 2"
proof -
  have r: "MarcianiMultiStream_rnd example_gen =
     Inr (1106612675 / 2147483647, example_gen\<lparr>ms_seeds := [1, 1106612675, 525555625]\<rparr>)"
    by (simp add: MarcianiMultiStream_rnd_def example_gen_def int_truediv_def py_mod_def
        py_getitem_def py_setitem_def py_index_def schrage_def Let_def)
  have i: "py_index (length (ms_seeds example_gen)) (ms_stream example_gen) = Some 1"
    by (simp add: example_gen_def py_index_def)
  from rnd_frame [OF r i, of 0] rnd_frame [OF r i, of 2] r i show ?thesis by simp
qed

text \<open>
  C8. On a constructed generator, \<open>put_seed(x)\<close> raises ValueError when \<open>x \<le> 0\<close> and
  raises nothing when \<open>x > 0\<close>; in that case the seed of the current stream becomes
  \<open>x mod M\<close>, the seeds of all other streams are unchanged, and so is the current stream.
\<close>

theorem put_seed_multi:
  assumes "gen_ok g"
  shows "(x \<le> 0 \<longrightarrow> MarcianiMultiStream_put_seed x g = Inl ValueError) \<and>
         (0 < x \<longrightarrow> (\<exists>g'. MarcianiMultiStream_put_seed x g = Inr g' \<and>
             MarcianiMultiStream_get_seed g' = Inr (x mod ms_modulus g) \<and>
             ms_stream g' = ms_stream g \<and>
             length (ms_seeds g') = length (ms_seeds g) \<and>
             (\<forall>j. j \<noteq> nat (ms_stream g) \<longrightarrow> ms_seeds g' ! j = ms_seeds g ! j)))"
  using assms
  by (simp add: MarcianiMultiStream_put_seed_def MarcianiMultiStream_get_seed_def gen_ok_def
      py_mod_def py_setitem_def py_getitem_def py_index_in_range)

theorem put_seed_multi_witness:
  "gen_ok example_gen \<and>
   MarcianiMultiStream_put_seed (-3) example_gen = Inl ValueError \<and>
   MarcianiMultiStream_put_seed 0 example_gen = Inl ValueError \<and>
   MarcianiMultiStream_put_seed 2147483650 example_gen =
     Inr (example_gen\<lparr>ms_seeds := [1, 3, 525555625]\<rparr>)"
proof -
  have p: "MarcianiMultiStream_put_seed 2147483650 example_gen =
     Inr (example_gen\<lparr>ms_seeds := [1, 3, 525555625]\<rparr>)"
    by (simp add: MarcianiMultiStream_put_seed_def example_gen_def py_mod_def py_setitem_def
        py_index_def)
  from put_seed_multi [OF example_gen_ok, of "-3"] put_seed_multi [OF example_gen_ok, of 0]
    example_gen_ok p
  show ?thesis by simp
qed

text \<open>
  C10, as stated, fails: the constructor of the single-stream generator checks nothing,
  so a generator with modulus 0 exists, and on it \<open>put_seed(42)\<close> raises
  ZeroDivisionError at \<^verbatim>\<open>x %= self._modulus\<close> although 42 is strictly positive.
\<close>

theorem put_seed_single_counterexample:
  "0 < (42::int) \<and>
   MarcianiSingleStream_put_seed 42 (MarcianiSingleStream_new 1 0 48271) =
     Inl ZeroDivisionError"
  by (simp add: MarcianiSingleStream_put_seed_def MarcianiSingleStream_new_def py_mod_def)

text \<open>
  C10, amended. On a single-stream generator whose modulus is not zero, \<open>put_seed(x)\<close>
  with \<open>x > 0\<close> returns and the generator is exactly as before, so \<open>get_seed\<close> gives the
  value it gave before the call; with \<open>x \<le> 0\<close> it raises ValueError.
\<close>

theorem put_seed_single:
  assumes "ss_modulus g \<noteq> 0"
  shows "(0 < x \<longrightarrow> MarcianiSingleStream_put_seed x g = Inr g) \<and>
         (x \<le> 0 \<longrightarrow> MarcianiSingleStream_put_seed x g = Inl ValueError)"
  using assms by (simp add: MarcianiSingleStream_put_seed_def py_mod_def)

theorem put_seed_single_witness:
  "ss_modulus (MarcianiSingleStream_new 1 2147483647 48271) \<noteq> 0 \<and>
   MarcianiSingleStream_put_seed 42 (MarcianiSingleStream_new 1 2147483647 48271) =
     Inr (MarcianiSingleStream_new 1 2147483647 48271) \<and>
   MarcianiSingleStream_get_seed (MarcianiSingleStream_new 1 2147483647 48271) = 1 \<and>
   MarcianiSingleStream_put_seed 0 (MarcianiSingleStream_new 1 2147483647 48271) = Inl ValueError"
proof -
  have m: "ss_modulus (MarcianiSingleStream_new 1 2147483647 48271) \<noteq> 0"
    by (simp add: MarcianiSingleStream_new_def)
  from put_seed_single [OF m, of 42] put_seed_single [OF m, of 0] m
  show ?thesis by (simp add: MarcianiSingleStream_get_seed_def MarcianiSingleStream_new_def)
qed

section \<open>The known answer of the default generator\<close>

text \<open>
  Schrage's decomposition with \<open>Q = 44488\<close> and \<open>R = 3399\<close> computes the product
  \<open>48271 * s\<close> modulo \<open>2^31 - 1\<close>, so \<open>n\<close> draws multiply the seed by \<open>48271 ^ n\<close>; the
  power is reduced by repeated squaring.
\<close>

lemma pm_sq: "(x::int) ^ n mod m = c \<Longrightarrow> x ^ (2 * n) mod m = (c * c) mod m"
  by (metis mod_mult_eq power2_eq_square power_even_eq power_mult mult.commute)

lemma pm_sq1:
  assumes "(x::int) ^ n mod m = c" and "x mod m = v"
  shows "x ^ (2 * n + 1) mod m = (c * c * v) mod m"
proof -
  have "x ^ (2 * n + 1) mod m = (x ^ (2 * n) * x) mod m"
    by (simp add: mult.commute)
  also have "\<dots> = ((x ^ (2 * n) mod m) * (x mod m)) mod m"
    by (rule mod_mult_eq [symmetric])
  also have "x ^ (2 * n) mod m = (c * c) mod m" using assms(1) by (rule pm_sq)
  also have "(c * c mod m * (x mod m)) mod m = (c * c * (x mod m)) mod m"
    by (rule mod_mult_left_eq)
  finally show ?thesis using assms(2) by simp
qed

lemma power_10000: "DEFAULT_MULTIPLIER ^ 10000 mod 2147483647 = 399268537"
proof -
  have xv: "DEFAULT_MULTIPLIER mod 2147483647 = 48271"
    by (simp add: DEFAULT_MULTIPLIER_def)
  have e1: "DEFAULT_MULTIPLIER ^ 1 mod 2147483647 = 48271"
    by (simp add: DEFAULT_MULTIPLIER_def)
  have e2: "DEFAULT_MULTIPLIER ^ 2 mod 2147483647 = 182605794"
    using pm_sq [OF e1] by simp
  have e4: "DEFAULT_MULTIPLIER ^ 4 mod 2147483647 = 1914720637"
    using pm_sq [OF e2] by simp
  have e9: "DEFAULT_MULTIPLIER ^ 9 mod 2147483647 = 564586691"
    using pm_sq1 [OF e4 xv] by simp
  have e19: "DEFAULT_MULTIPLIER ^ 19 mod 2147483647 = 1559527823"
    using pm_sq1 [OF e9 xv] by simp
  have e39: "DEFAULT_MULTIPLIER ^ 39 mod 2147483647 = 1272185027"
    using pm_sq1 [OF e19 xv] by simp
  have e78: "DEFAULT_MULTIPLIER ^ 78 mod 2147483647 = 837051536"
    using pm_sq [OF e39] by simp
  have e156: "DEFAULT_MULTIPLIER ^ 156 mod 2147483647 = 2071152004"
    using pm_sq [OF e78] by simp
  have e312: "DEFAULT_MULTIPLIER ^ 312 mod 2147483647 = 1451777401"
    using pm_sq [OF e156] by simp
  have e625: "DEFAULT_MULTIPLIER ^ 625 mod 2147483647 = 605889173"
    using pm_sq1 [OF e312 xv] by simp
  have e1250: "DEFAULT_MULTIPLIER ^ 1250 mod 2147483647 = 1285444814"
    using pm_sq [OF e625] by simp
  have e2500: "DEFAULT_MULTIPLIER ^ 2500 mod 2147483647 = 1211932242"
    using pm_sq [OF e1250] by simp
  have e5000: "DEFAULT_MULTIPLIER ^ 5000 mod 2147483647 = 1629331733"
    using pm_sq [OF e2500] by simp
  have e10000: "DEFAULT_MULTIPLIER ^ 10000 mod 2147483647 = 399268537"
    using pm_sq [OF e5000] by simp
  show ?thesis by (rule e10000)
qed

lemma schrage_default:
  assumes "0 < s" and "s \<le> 2147483647"
  shows "schrage 48271 2147483647 44488 3399 s = Inr (lehmer_norm (48271 * s))"
proof -
  define q where "q = s div 44488"
  define r where "r = s mod 44488"
  define t where "t = 48271 * r - 3399 * q"
  have s: "s = 44488 * q + r" by (simp add: q_def r_def)
  have r: "0 \<le> r" "r < 44488" by (simp_all add: r_def)
  have q: "0 \<le> q" "q \<le> 48271" using assms s r by linarith+
  have "48271 * s - 1 = (t - 1) + q * 2147483647" using s by (simp add: t_def)
  then have "(48271 * s - 1) mod 2147483647 = ((t - 1) + q * 2147483647) mod 2147483647"
    by (rule arg_cong)
  also have "\<dots> = (t - 1) mod 2147483647" by (rule mod_mult_self1)
  finally have m: "(48271 * s - 1) mod 2147483647 = (t - 1) mod 2147483647" .
  have tb: "- 164073129 \<le> t" "t \<le> 2147431977" using r q by (simp_all add: t_def)
  have res: "(if t > 0 then t else t + 2147483647) = (t - 1) mod 2147483647 + 1"
  proof (cases "t > 0")
    case True
    then have "(t - 1) mod 2147483647 = t - 1" using tb by (simp add: mod_pos_pos_trivial)
    with True show ?thesis by simp
  next
    case False
    have "(t - 1) mod 2147483647 = (t - 1 + 1 * 2147483647) mod 2147483647"
      by (rule mod_mult_self1 [symmetric])
    also have "\<dots> = t - 1 + 1 * 2147483647" using False tb by (simp add: mod_pos_pos_trivial)
    finally show ?thesis using False by simp
  qed
  have d: "int_truediv s 44488 = Inr q" using assms by (simp add: int_truediv_def q_def)
  have md: "py_mod s 44488 = Inr r" by (simp add: py_mod_def r_def)
  have "schrage 48271 2147483647 44488 3399 s = Inr (if t > 0 then t else t + 2147483647)"
    unfolding schrage_def md d by (simp add: t_def Let_def)
  also have "\<dots> = Inr (lehmer_norm (48271 * s))"
    unfolding lehmer_norm_def m res ..
  finally show ?thesis .
qed

lemma lehmer_norm_range: "0 < lehmer_norm x \<and> lehmer_norm x \<le> 2147483647"
proof -
  have "0 \<le> (x - 1) mod 2147483647" "(x - 1) mod 2147483647 < 2147483647" by simp_all
  then show ?thesis unfolding lehmer_norm_def by linarith
qed

lemma lehmer_norm_id: "0 < x \<Longrightarrow> x \<le> 2147483647 \<Longrightarrow> lehmer_norm x = x"
  by (simp add: lehmer_norm_def mod_pos_pos_trivial)

lemma lehmer_norm_mult: "lehmer_norm (c * lehmer_norm x) = lehmer_norm (c * x)"
proof -
  have "(c * ((x - 1) mod 2147483647 + 1)) mod 2147483647 = (c * (((x - 1) mod 2147483647 + 1) mod 2147483647)) mod 2147483647"
    by (simp add: mod_mult_right_eq)
  also have "((x - 1) mod 2147483647 + 1) mod 2147483647 = x mod 2147483647"
    by (simp add: mod_add_left_eq)
  also have "(c * (x mod 2147483647)) mod 2147483647 = (c * x) mod 2147483647"
    by (simp add: mod_mult_right_eq)
  finally have "(c * ((x - 1) mod 2147483647 + 1)) mod 2147483647 = (c * x) mod 2147483647" .
  then have "(c * ((x - 1) mod 2147483647 + 1) - 1) mod 2147483647 = (c * x - 1) mod 2147483647"
    by (metis mod_diff_left_eq)
  then show ?thesis by (simp add: lehmer_norm_def)
qed

lemma schrage_total: "Q \<noteq> 0 \<Longrightarrow> \<exists>x. schrage a m Q R s = Inr x"
  by (simp add: schrage_def py_mod_def int_truediv_def Let_def)

lemma plant_loop_ok:
  assumes "Q \<noteq> 0" and "\<forall>j\<in>set js. 0 < j \<and> j < length seeds"
  shows "\<exists>seeds'. plant_loop G M Q R js seeds = Inr seeds' \<and>
           length seeds' = length seeds \<and> seeds' ! 0 = seeds ! 0"
  using assms(2)
proof (induction js arbitrary: seeds)
  case Nil
  then show ?case by simp
next
  case (Cons j js)
  from Cons.prems have j: "0 < j" "j < length seeds" by simp_all
  have g: "py_getitem seeds (int j - 1) = Inr (seeds ! (j - 1))"
    using j by (simp add: py_getitem_def py_index_in_range nat_diff_distrib)
  obtain x where x: "schrage G M Q R (seeds ! (j - 1)) = Inr x"
    using schrage_total [OF assms(1)] by blast
  have st: "py_setitem seeds (int j) x = Inr (seeds[j := x])"
    using j by (simp add: py_setitem_def py_index_in_range)
  have "\<forall>k\<in>set js. 0 < k \<and> k < length (seeds[j := x])"
    using Cons.prems by simp
  from Cons.IH [OF this] obtain seeds' where
    "plant_loop G M Q R js (seeds[j := x]) = Inr seeds'"
    "length seeds' = length (seeds[j := x])" "seeds' ! 0 = (seeds[j := x]) ! 0"
    by blast
  moreover have "plant_loop G M Q R (j # js) seeds = plant_loop G M Q R js (seeds[j := x])"
    by (simp only: plant_loop.simps g x st bind_e_Inr)
  ultimately show ?case using j by simp
qed

lemma new_default:
  "\<exists>g. MarcianiMultiStream_new 1 DEFAULT_MODULUS DEFAULT_MULTIPLIER DEFAULT_STREAMS DEFAULT_JUMPER = Inr g \<and>
       ms_modulus g = 2147483647 \<and> ms_multiplier g = 48271 \<and> ms_stream g = 0 \<and>
       length (ms_seeds g) = 256 \<and> ms_seeds g ! 0 = 1"
proof -
  let ?s0 = "(replicate 256 (1::int))[0 := 1]"
  have "\<forall>j\<in>set [1..<256]. 0 < j \<and> j < length ?s0" by simp
  from plant_loop_ok [of 93674 "[1..<256]" ?s0 22925 2147483647 7197, OF _ this]
  obtain seeds' where p: "plant_loop 22925 2147483647 93674 7197 [1..<256] ?s0 = Inr seeds'"
    and l: "length seeds' = length ?s0" and z: "seeds' ! 0 = ?s0 ! 0"
    by auto
  have l': "length seeds' = 256" using l by simp
  have z': "seeds' ! 0 = 1" using z by simp
  show ?thesis
    unfolding MarcianiMultiStream_new_def MarcianiMultiStream_plant_seeds_def
      DEFAULT_MODULUS_def DEFAULT_MULTIPLIER_def DEFAULT_STREAMS_def DEFAULT_JUMPER_def
    using p l' z'
    by (simp add: int_truediv_def py_mod_def select_stream_def MarcianiMultiStream_put_seed_def
        py_setitem_def py_index_def Let_def)
qed

lemma rnd_default:
  assumes "ms_modulus g = 2147483647" and "ms_multiplier g = 48271"
    and "0 \<le> ms_stream g" and "ms_stream g < int (length (ms_seeds g))"
    and "0 < ms_seeds g ! nat (ms_stream g)" and "ms_seeds g ! nat (ms_stream g) \<le> 2147483647"
  shows "\<exists>u. MarcianiMultiStream_rnd g =
           Inr (u, g\<lparr>ms_seeds := (ms_seeds g)[nat (ms_stream g) :=
                      lehmer_norm (48271 * (ms_seeds g ! nat (ms_stream g)))]\<rparr>)"
proof -
  have "MarcianiMultiStream_rnd g =
      Inr (real_of_int (lehmer_norm (48271 * (ms_seeds g ! nat (ms_stream g)))) / 2147483647,
           g\<lparr>ms_seeds := (ms_seeds g)[nat (ms_stream g) :=
                      lehmer_norm (48271 * (ms_seeds g ! nat (ms_stream g)))]\<rparr>)"
    using assms
    by (simp add: MarcianiMultiStream_rnd_def int_truediv_def py_mod_def py_getitem_def
        py_setitem_def py_index_in_range schrage_default)
  then show ?thesis by blast
qed

lemma rnd_times_default:
  assumes "ms_modulus g = 2147483647" and "ms_multiplier g = 48271"
    and "0 \<le> ms_stream g" and "ms_stream g < int (length (ms_seeds g))"
    and "0 < ms_seeds g ! nat (ms_stream g)" and "ms_seeds g ! nat (ms_stream g) \<le> 2147483647"
  shows "rnd_times n g =
           Inr (g\<lparr>ms_seeds := (ms_seeds g)[nat (ms_stream g) :=
                      lehmer_norm (DEFAULT_MULTIPLIER ^ n * (ms_seeds g ! nat (ms_stream g)))]\<rparr>)"
  using assms
proof (induction n arbitrary: g)
  case 0
  then show ?case by (simp add: lehmer_norm_id)
next
  case (Suc n)
  let ?i = "nat (ms_stream g)"
  let ?s = "ms_seeds g ! ?i"
  let ?g1 = "g\<lparr>ms_seeds := (ms_seeds g)[?i := lehmer_norm (48271 * ?s)]\<rparr>"
  from rnd_default [OF Suc.prems] obtain u where u: "MarcianiMultiStream_rnd g = Inr (u, ?g1)"
    by blast
  have i: "?i < length (ms_seeds g)" using Suc.prems by simp
  have "rnd_times n ?g1 =
     Inr (?g1\<lparr>ms_seeds := (ms_seeds ?g1)[nat (ms_stream ?g1) :=
            lehmer_norm (DEFAULT_MULTIPLIER ^ n * (ms_seeds ?g1 ! nat (ms_stream ?g1)))]\<rparr>)"
    using Suc.prems i lehmer_norm_range [of "48271 * ?s"]
    by (intro Suc.IH) simp_all
  also have "\<dots> = Inr (g\<lparr>ms_seeds := (ms_seeds g)[?i := lehmer_norm (DEFAULT_MULTIPLIER ^ n * lehmer_norm (48271 * ?s))]\<rparr>)"
    using i by simp
  finally have "rnd_times n ?g1 = Inr (g\<lparr>ms_seeds := (ms_seeds g)[?i := lehmer_norm (DEFAULT_MULTIPLIER ^ n * lehmer_norm (48271 * ?s))]\<rparr>)" .
  moreover have "lehmer_norm (DEFAULT_MULTIPLIER ^ n * lehmer_norm (48271 * ?s)) = lehmer_norm (DEFAULT_MULTIPLIER ^ Suc n * ?s)"
    by (simp add: lehmer_norm_mult DEFAULT_MULTIPLIER_def ac_simps)
  ultimately show ?case using u by simp
qed

lemma lehmer_norm_10000: "lehmer_norm (DEFAULT_MULTIPLIER ^ 10000) = 399268537"
proof -
  have "(DEFAULT_MULTIPLIER ^ 10000 - 1) mod 2147483647 =
        (DEFAULT_MULTIPLIER ^ 10000 mod 2147483647 - 1) mod 2147483647"
    by (rule mod_diff_left_eq [symmetric])
  then show ?thesis by (simp add: lehmer_norm_def power_10000)
qed

text \<open>
  C3. The generator constructed with the default modulus, multiplier, stream count and
  jumper and the initial seed 1 is constructed without error, 10000 calls of \<open>rnd()\<close> on
  its initial stream all return, and \<open>get_seed()\<close> then returns 399268537.
\<close>

theorem known_answer:
  "bind_e (MarcianiMultiStream_new 1 DEFAULT_MODULUS DEFAULT_MULTIPLIER DEFAULT_STREAMS DEFAULT_JUMPER)
     (\<lambda>g. bind_e (rnd_times 10000 g) MarcianiMultiStream_get_seed) = Inr 399268537"
proof -
  from new_default obtain g where
    g: "MarcianiMultiStream_new 1 DEFAULT_MODULUS DEFAULT_MULTIPLIER DEFAULT_STREAMS DEFAULT_JUMPER = Inr g"
    and m: "ms_modulus g = 2147483647" "ms_multiplier g = 48271" and s: "ms_stream g = 0"
    and l: "length (ms_seeds g) = 256" and z: "ms_seeds g ! 0 = 1"
    by blast
  have "rnd_times 10000 g =
      Inr (g\<lparr>ms_seeds := (ms_seeds g)[nat (ms_stream g) :=
             lehmer_norm (DEFAULT_MULTIPLIER ^ 10000 * (ms_seeds g ! nat (ms_stream g)))]\<rparr>)"
    by (rule rnd_times_default) (simp_all add: m s l z)
  then have r: "rnd_times 10000 g =
      Inr (g\<lparr>ms_seeds := (ms_seeds g)[0 := lehmer_norm (DEFAULT_MULTIPLIER ^ 10000)]\<rparr>)"
    by (simp only: s z nat_0 mult_1_right)
  show ?thesis
    by (simp add: g r MarcianiMultiStream_get_seed_def py_getitem_def py_index_def s l
        lehmer_norm_10000)
qed

section \<open>The streams of the task generator\<close>

lemma rnd_step:
  assumes "ms_modulus g = 2147483647" and "ms_multiplier g = 48271"
    and "0 \<le> ms_stream g" and "ms_stream g < int (length (ms_seeds g))"
  shows "\<exists>u s'. schrage 48271 2147483647 44488 3399 (ms_seeds g ! nat (ms_stream g)) = Inr s' \<and>
           MarcianiMultiStream_rnd g =
             Inr (u, g\<lparr>ms_seeds := (ms_seeds g)[nat (ms_stream g) := s']\<rparr>)"
proof -
  obtain s' where s': "schrage 48271 2147483647 44488 3399 (ms_seeds g ! nat (ms_stream g)) = Inr s'"
    using schrage_total [of 44488 48271 2147483647 3399 "ms_seeds g ! nat (ms_stream g)"] by auto
  have "MarcianiMultiStream_rnd g =
      Inr (real_of_int s' / 2147483647, g\<lparr>ms_seeds := (ms_seeds g)[nat (ms_stream g) := s']\<rparr>)"
    using assms s'
    by (simp add: MarcianiMultiStream_rnd_def int_truediv_def py_mod_def py_getitem_def
        py_setitem_def py_index_in_range)
  with s' show ?thesis by blast
qed

lemma new_default_planted:
  "\<exists>g. MarcianiMultiStream_new 1 DEFAULT_MODULUS DEFAULT_MULTIPLIER DEFAULT_STREAMS DEFAULT_JUMPER = Inr g \<and>
       ms_modulus g = 2147483647 \<and> ms_multiplier g = 48271 \<and> ms_streams g = 256 \<and> ms_init g \<and>
       length (ms_seeds g) = 256"
proof -
  let ?s0 = "(replicate 256 (1::int))[0 := 1]"
  have "\<forall>j\<in>set [1..<256]. 0 < j \<and> j < length ?s0" by simp
  from plant_loop_ok [of 93674 "[1..<256]" ?s0 22925 2147483647 7197, OF _ this]
  obtain seeds' where p: "plant_loop 22925 2147483647 93674 7197 [1..<256] ?s0 = Inr seeds'"
    and l: "length seeds' = length ?s0"
    by auto
  have l': "length seeds' = 256" using l by simp
  show ?thesis
    unfolding MarcianiMultiStream_new_def MarcianiMultiStream_plant_seeds_def
      DEFAULT_MODULUS_def DEFAULT_MULTIPLIER_def DEFAULT_STREAMS_def DEFAULT_JUMPER_def
    using p l'
    by (simp add: int_truediv_def py_mod_def select_stream_def MarcianiMultiStream_put_seed_def
        py_setitem_def py_index_def Let_def)
qed

text \<open>
  C4 fails on the code. On the default generator with seed 1 and the arrival rates 3.25
  and 6.25 of the default configuration, one call of \<open>_generate_exponential\<close> returns,
  leaves stream \<open>STREAM_ARRIVAL_TYPE\<close> (100) selected and its seed advanced by two
  Schrage steps, one for the type and one for the time, and leaves the seed of stream
  \<open>STREAM_ARRIVAL_TIME\<close> (101) as it was: both draws are taken on the same stream.
\<close>

theorem generate_exponential_one_stream:
  "\<exists>g res tg' s1 s2.
     MarcianiMultiStream_new 1 DEFAULT_MODULUS DEFAULT_MULTIPLIER DEFAULT_STREAMS DEFAULT_JUMPER = Inr g \<and>
     SimpleTaskgen_generate_exponential 0 \<lparr>tg_rndgen = g, tg_r_tot = 19 / 2, tg_p1 = 13 / 38\<rparr>
       = Inr (res, tg') \<and>
     ms_stream (tg_rndgen tg') = STREAM_ARRIVAL_TYPE \<and>
     schrage 48271 2147483647 44488 3399 (ms_seeds g ! 100) = Inr s1 \<and>
     schrage 48271 2147483647 44488 3399 s1 = Inr s2 \<and>
     ms_seeds (tg_rndgen tg') ! 100 = s2 \<and>
     ms_seeds (tg_rndgen tg') ! 101 = ms_seeds g ! 101"
proof -
  from new_default_planted obtain g where
    g: "MarcianiMultiStream_new 1 DEFAULT_MODULUS DEFAULT_MULTIPLIER DEFAULT_STREAMS DEFAULT_JUMPER = Inr g"
    and m: "ms_modulus g = 2147483647" "ms_multiplier g = 48271"
    and k: "ms_streams g = 256" and i: "ms_init g" and l: "length (ms_seeds g) = 256"
    by blast
  let ?g1 = "g\<lparr>ms_stream := 100\<rparr>"
  have st: "MarcianiMultiStream_stream 100 g = Inr ?g1"
    by (simp add: MarcianiMultiStream_stream_def select_stream_def py_mod_def k i)
  from rnd_step [of ?g1] obtain u s1 where
    s1: "schrage 48271 2147483647 44488 3399 (ms_seeds g ! 100) = Inr s1"
    and r1: "MarcianiMultiStream_rnd ?g1 = Inr (u, ?g1\<lparr>ms_seeds := (ms_seeds g)[100 := s1]\<rparr>)"
    using m l by auto
  let ?g2 = "?g1\<lparr>ms_seeds := (ms_seeds g)[100 := s1]\<rparr>"
  from rnd_step [of ?g2] obtain u2 s2 where
    s2: "schrage 48271 2147483647 44488 3399 s1 = Inr s2"
    and r2: "MarcianiMultiStream_rnd ?g2 = Inr (u2, ?g2\<lparr>ms_seeds := (ms_seeds g)[100 := s2]\<rparr>)"
    using m l by auto
  show ?thesis
    using g s1 s2 l
    by (simp add: SimpleTaskgen_generate_exponential_def st r1 r2 STREAM_ARRIVAL_TYPE_def)
qed

section \<open>The calendar\<close>

lemma mset_pq_put: "mset (pq_put e q) = add_mset e (mset q)"
  by (induction q) simp_all

lemma set_pq_put: "set (pq_put e q) = insert e (set q)"
  by (induction q) auto

lemma sorted_pq_put:
  "sorted (map ev_time q) \<Longrightarrow> sorted (map ev_time (pq_put e q))"
  by (induction q) (auto simp: set_pq_put)

text \<open>
  C5. \<open>schedule\<close> always returns a boolean. It returns False exactly when the type of
  the event is an arrival type and its time is at or past the horizon, and then the
  calendar is unchanged; in every other case it returns True, the queue holds the
  event in addition to what it held, and nothing else of the calendar changes.
\<close>

theorem schedule_accepts_or_rejects:
  "(fst (schedule ev c) \<longleftrightarrow> \<not> (ev_type ev \<in> cal_arrival_types c \<and> cal_stop c \<le> ev_time ev)) \<and>
   (\<not> fst (schedule ev c) \<longrightarrow> snd (schedule ev c) = c) \<and>
   (fst (schedule ev c) \<longrightarrow>
      mset (cal_events (snd (schedule ev c))) = add_mset ev (mset (cal_events c)) \<and>
      snd (schedule ev c) = c\<lparr>cal_events := cal_events (snd (schedule ev c))\<rparr>)"
  by (simp add: schedule_def mset_pq_put)

theorem schedule_accepts_or_rejects_witness:
  "\<not> fst (schedule late_arrival example_calendar) \<and>
   snd (schedule late_arrival example_calendar) = example_calendar \<and>
   fst (schedule late_completion example_calendar) \<and>
   mset (cal_events (snd (schedule late_completion example_calendar))) =
     add_mset late_completion (mset (cal_events example_calendar))"
proof -
  have a: "ev_type late_arrival \<in> cal_arrival_types example_calendar \<and>
           cal_stop example_calendar \<le> ev_time late_arrival"
    by (simp add: late_arrival_def example_calendar_def NextEventCalendar_new_def)
  have b: "\<not> (ev_type late_completion \<in> cal_arrival_types example_calendar \<and>
           cal_stop example_calendar \<le> ev_time late_completion)"
    by (simp add: late_completion_def example_calendar_def NextEventCalendar_new_def)
  from schedule_accepts_or_rejects [of late_arrival example_calendar]
    schedule_accepts_or_rejects [of late_completion example_calendar] a b
  show ?thesis by simp
qed

text \<open>
  What \<open>get_next_event\<close> does when it returns an event: the event is not one of those
  to ignore, the clock is its time, and no event left in the queue is earlier.
\<close>

lemma skip_ignored_returns:
  assumes "skip_ignored x xs ign = Returns (e, q, ign')"
  shows "e \<notin> ign' \<and> e \<in> set (x # xs) \<and> ign' \<subseteq> ign \<and> (\<exists>pre. x # xs = pre @ e # q)"
  using assms
proof (induction x xs ign rule: skip_ignored.induct)
  case (1 candidate ign)
  then show ?case by (auto split: if_splits)
next
  case (2 candidate x xs ign)
  show ?case
  proof (cases "candidate \<in> ign")
    case True
    with 2 have "e \<notin> ign' \<and> e \<in> set (x # xs) \<and> ign' \<subseteq> ign - {candidate} \<and>
        (\<exists>pre. x # xs = pre @ e # q)"
      by simp
    then obtain pre where "e \<notin> ign'" "e \<in> set (x # xs)" "ign' \<subseteq> ign" "x # xs = pre @ e # q"
      by blast
    then have "candidate # x # xs = (candidate # pre) @ e # q" by simp
    with \<open>e \<notin> ign'\<close> \<open>e \<in> set (x # xs)\<close> \<open>ign' \<subseteq> ign\<close> show ?thesis by (meson list.set_intros(2))
  next
    case False
    with 2 show ?thesis by auto
  qed
qed


lemma get_next_event_returns:
  assumes "get_next_event c = Returns (Some e, c')"
    and "sorted (map ev_time (cal_events c))"
  shows "e \<in> set (cal_events c) \<and> e \<notin> cal_ignore c' \<and> cal_clock c' = ev_time e \<and>
         (\<forall>x \<in> set (cal_events c'). ev_time e \<le> ev_time x) \<and>
         sorted (map ev_time (cal_events c'))"
proof -
  from assms(1) obtain x xs q ign where
    q: "cal_events c = x # xs" and s: "skip_ignored x xs (cal_ignore c) = Returns (e, q, ign)"
    and c': "c' = set_clock (ev_time e) (c\<lparr>cal_events := q, cal_ignore := ign\<rparr>)"
    by (auto simp: get_next_event_def split: list.splits call.splits)
  from skip_ignored_returns [OF s] obtain pre where
    e: "e \<notin> ign" "e \<in> set (x # xs)" and p: "x # xs = pre @ e # q"
    by blast
  from assms(2) have "sorted (map ev_time (pre @ e # q))" by (simp only: q p)
  then have "sorted (map ev_time (e # q))" by (simp add: sorted_append)
  then show ?thesis using e q by (auto simp: c' set_clock_def)
qed

text \<open>
  C1 fails on the code. An event is scheduled and then unscheduled; the queue now
  holds only a cancelled event. \<open>get_next_event\<close> takes it from the queue, drops it, and
  calls \<open>get()\<close> on the empty queue: the call never returns, where the claim (and the
  docstring of the method) says it returns None.
\<close>

theorem get_next_event_only_cancelled:
  "fst (schedule early_completion example_calendar) \<and>
   get_next_event (unschedule [early_completion] (snd (schedule early_completion example_calendar)))
     = Blocks"
  by (simp add: get_next_event_def unschedule_def schedule_def example_calendar_def
      NextEventCalendar_new_def early_completion_def)

section \<open>The batch statistics group\<close>

lemma sealed_counts_register:
  "sealed_counts (BatchStatistics_register_batch K s) = map Suc (sealed_counts s)"
  by (simp add: sealed_counts_def BatchStatistics_register_batch_def Batched_register_batch_def)

lemma sealed_counts_discard:
  "sealed_counts (BatchStatistics_discard_batch K s) = sealed_counts s"
  by (simp add: sealed_counts_def BatchStatistics_discard_batch_def Batched_discard_batch_def)

lemma n_batches_register:
  "bs_n_batches (BatchStatistics_register_batch K s) = bs_n_batches s + 1"
  by (simp add: BatchStatistics_register_batch_def)

lemma n_batches_discard:
  "bs_n_batches (BatchStatistics_discard_batch K s) = bs_n_batches s"
  by (simp add: BatchStatistics_discard_batch_def)

lemma batch_calls_counts:
  "sealed_counts (batch_calls K cs s) =
     map (\<lambda>n. n + count_list cs Register_batch) (sealed_counts s) \<and>
   bs_n_batches (batch_calls K cs s) = bs_n_batches s + int (count_list cs Register_batch)"
proof (induction cs arbitrary: s)
  case Nil
  then show ?case by simp
next
  case (Cons c cs)
  show ?case
  proof (cases c)
    case Register_batch
    then show ?thesis
      by (simp add: Cons.IH sealed_counts_register n_batches_register comp_def)
  next
    case Discard_batch
    then show ?thesis
      by (simp add: Cons.IH sealed_counts_discard n_batches_discard)
  qed
qed

text \<open>
  C9. One call of \<open>register_batch\<close> on the group appends exactly one sealed value, the
  value of the open batch, to each of the seven accumulators, resets each open batch
  and adds one to \<open>n_batches\<close>. After any sequence of \<open>register_batch\<close> and
  \<open>discard_batch\<close> calls on a new group, \<open>n_batches\<close> is the number of \<open>register_batch\<close>
  calls made, and so is the number of sealed batches of each of the seven accumulators.
\<close>

theorem register_batch_uniform:
  "b_closed (bs_arrived (BatchStatistics_register_batch K s)) =
     b_closed (bs_arrived s) @ [sealed_value (BatchedMeasure K) (b_open (bs_arrived s))] \<and>
   b_closed (bs_completed (BatchStatistics_register_batch K s)) =
     b_closed (bs_completed s) @ [sealed_value (BatchedMeasure K) (b_open (bs_completed s))] \<and>
   b_closed (bs_switched (BatchStatistics_register_batch K s)) =
     b_closed (bs_switched s) @ [sealed_value (BatchedMeasure K) (b_open (bs_switched s))] \<and>
   b_closed (bs_service (BatchStatistics_register_batch K s)) =
     b_closed (bs_service s) @ [sealed_value (BatchedMeasure K) (b_open (bs_service s))] \<and>
   b_closed (bs_n (BatchStatistics_register_batch K s)) =
     b_closed (bs_n s) @ [sealed_value (BatchedSampleStatistic K) (b_open (bs_n s))] \<and>
   b_closed (bs_response (BatchStatistics_register_batch K s)) =
     b_closed (bs_response s) @ [sealed_value (BatchedSampleStatistic K) (b_open (bs_response s))] \<and>
   b_closed (bs_throughput (BatchStatistics_register_batch K s)) =
     b_closed (bs_throughput s) @
       [sealed_value (BatchedSamplePathStatistic K) (b_open (bs_throughput s))] \<and>
   bs_n_batches (BatchStatistics_register_batch K s) = bs_n_batches s + 1 \<and>
   sealed_counts (batch_calls K cs (BatchStatistics_new K)) =
     replicate 7 (count_list cs Register_batch) \<and>
   bs_n_batches (batch_calls K cs (BatchStatistics_new K)) = int (count_list cs Register_batch)"
proof -
  have "sealed_counts (BatchStatistics_new K) = replicate 7 0"
    by (simp add: sealed_counts_def BatchStatistics_new_def Batched_new_def numeral_eq_Suc)
  moreover have "bs_n_batches (BatchStatistics_new K) = 0"
    by (simp add: BatchStatistics_new_def)
  ultimately have
    "sealed_counts (batch_calls K cs (BatchStatistics_new K)) =
       replicate 7 (count_list cs Register_batch)"
    "bs_n_batches (batch_calls K cs (BatchStatistics_new K)) = int (count_list cs Register_batch)"
    using batch_calls_counts [of K cs "BatchStatistics_new K"] by simp_all
  then show ?thesis
    by (simp add: BatchStatistics_register_batch_def Batched_register_batch_def)
qed

section \<open>The routing of arrivals and the occupancy counters\<close>

lemma example_system_eq:
  "example_system =
     \<lparr>sys_tiers = (1, 1), sys_n_1 = 1, sys_n_2 = 1, sys_n_arrival_1 = 1, sys_n_arrival_2 = 1,
      sys_n_served_1 = 0, sys_n_served_2 = 0, sys_response_time = [1, 1],
      sys_t_last_event = 4, sys_t_last_completion = 0, sys_area_service = 4\<rparr>"
  by (simp add: example_system_def SimpleCloudletCloudSystem_new_def submit_arrival_task_1_def
      submit_arrival_task_2_def update_meta_def record_response_def example_tiers_def Let_def)

text \<open>
  C2. In a state where the Cloudlet has fewer tasks of type 1 than servers, its
  occupancy is at least the threshold and it holds a task of type 2,
  \<open>submit_arrival_task_1\<close> calls, in this order and once each, the removal of a task of
  type 2 from the Cloudlet, the restart of a task of type 2 on the Cloud and the
  arrival of a task of type 1 on the Cloudlet, and returns three events, none of them
  None: the completion event given by the arrival, the completion event given by the
  restart, and the completion event given by the removal, which is the one to cancel.
\<close>

theorem preemption_returns_three_events:
  assumes "cloudlet_n_1 T (sys_tiers s) < cloudlet_n_servers T (sys_tiers s)"
    and "cloudlet_threshold T (sys_tiers s) \<le>
           cloudlet_n_1 T (sys_tiers s) + cloudlet_n_2 T (sys_tiers s)"
    and "0 < cloudlet_n_2 T (sys_tiers s)"
  shows "(let (completion_to_ignore, w1) = cloudlet_submit_removal_task_2 T t (sys_tiers s);
              (completion_restart_event, w2) = cloud_submit_restart_task_2 T t w1;
              (completion_event, w3) = cloudlet_submit_arrival_task_1 T t w2
          in fst (submit_arrival_task_1 T t s) =
               (completion_event, Some completion_restart_event, Some completion_to_ignore) \<and>
             sys_tiers (snd (submit_arrival_task_1 T t s)) = w3)"
  using assms
  by (simp add: submit_arrival_task_1_def update_meta_def record_response_def Let_def split_beta)

theorem preemption_returns_three_events_witness:
  "cloudlet_n_1 example_tiers (sys_tiers example_system) <
     cloudlet_n_servers example_tiers (sys_tiers example_system) \<and>
   cloudlet_threshold example_tiers (sys_tiers example_system) \<le>
     cloudlet_n_1 example_tiers (sys_tiers example_system) +
     cloudlet_n_2 example_tiers (sys_tiers example_system) \<and>
   0 < cloudlet_n_2 example_tiers (sys_tiers example_system) \<and>
   fst (submit_arrival_task_1 example_tiers 5 example_system) =
     (\<lparr>ev_id = 10, ev_type = 1, ev_time = 6\<rparr>,
      Some \<lparr>ev_id = 41, ev_type = 4, ev_time = 7\<rparr>,
      Some \<lparr>ev_id = 20, ev_type = 2, ev_time = 6\<rparr>) \<and>
   sys_tiers (snd (submit_arrival_task_1 example_tiers 5 example_system)) = (2, 0)"
proof -
  have a: "cloudlet_n_1 example_tiers (sys_tiers example_system) <
     cloudlet_n_servers example_tiers (sys_tiers example_system)"
    by (simp add: example_system_eq example_tiers_def)
  have b: "cloudlet_threshold example_tiers (sys_tiers example_system) \<le>
     cloudlet_n_1 example_tiers (sys_tiers example_system) +
     cloudlet_n_2 example_tiers (sys_tiers example_system)"
    by (simp add: example_system_eq example_tiers_def)
  have c: "0 < cloudlet_n_2 example_tiers (sys_tiers example_system)"
    by (simp add: example_system_eq example_tiers_def)
  have t: "sys_tiers example_system = (1, 1)"
    by (simp add: example_system_eq)
  from preemption_returns_three_events [OF a b c, of 5]
  have "fst (submit_arrival_task_1 example_tiers 5 example_system) =
     (\<lparr>ev_id = 10, ev_type = 1, ev_time = 6\<rparr>,
      Some \<lparr>ev_id = 41, ev_type = 4, ev_time = 7\<rparr>,
      Some \<lparr>ev_id = 20, ev_type = 2, ev_time = 6\<rparr>) \<and>
   sys_tiers (snd (submit_arrival_task_1 example_tiers 5 example_system)) = (2, 0)"
    unfolding t by (simp add: example_tiers_def)
  with a b c show ?thesis by simp
qed

lemma submit_counters:
  "sys_n_1 (submit T x s) = sys_n_1 s + delta_1 x \<and>
   sys_n_2 (submit T x s) = sys_n_2 s + delta_2 x"
  by (cases x)
    (simp_all add: submit_arrival_task_1_def submit_arrival_task_2_def
      submit_completion_cloudlet_task_1_def submit_completion_cloudlet_task_2_def
      submit_completion_cloud_task_1_def submit_completion_cloud_task_2_def
      update_meta_def record_response_def Let_def split_beta)

lemma submit_all_counters:
  "sys_n_1 (submit_all T xs s) = sys_n_1 s + sum_list (map delta_1 xs) \<and>
   sys_n_2 (submit_all T xs s) = sys_n_2 s + sum_list (map delta_2 xs)"
  by (induction xs arbitrary: s) (simp_all add: submit_counters)

lemma delta_1_sum: "sum_list (map delta_1 xs) = arrivals_1 xs - completions_1 xs"
proof (induction xs)
  case Nil
  then show ?case by (simp add: arrivals_1_def completions_1_def)
next
  case (Cons x xs)
  then show ?case by (cases x) (simp_all add: arrivals_1_def completions_1_def)
qed

lemma delta_2_sum: "sum_list (map delta_2 xs) = arrivals_2 xs - completions_2 xs"
proof (induction xs)
  case Nil
  then show ?case by (simp add: arrivals_2_def completions_2_def)
next
  case (Cons x xs)
  then show ?case by (cases x) (simp_all add: arrivals_2_def completions_2_def)
qed

lemma matched_nonneg:
  "matched b1 b2 xs \<Longrightarrow> 0 \<le> b1 \<Longrightarrow> 0 \<le> b2 \<Longrightarrow>
     0 \<le> b1 + sum_list (map delta_1 xs) \<and> 0 \<le> b2 + sum_list (map delta_2 xs)"
proof (induction xs arbitrary: b1 b2)
  case Nil
  then show ?case by simp
next
  case (Cons x xs)
  from Cons.prems have "matched (b1 + delta_1 x) (b2 + delta_2 x) xs"
    and "0 \<le> b1 + delta_1 x" and "0 \<le> b2 + delta_2 x"
    by simp_all
  from Cons.IH [OF this] show ?case by (simp add: add.assoc)
qed

lemma matched_take: "matched b1 b2 xs \<Longrightarrow> matched b1 b2 (take k xs)"
proof (induction xs arbitrary: b1 b2 k)
  case Nil
  then show ?case by simp
next
  case (Cons x xs)
  then show ?case by (cases k) simp_all
qed

text \<open>
  C6. Submissions are made to a new system, every completion of a class being matched
  by an earlier arrival of that class. After each of them the system's count \<open>n_1\<close> of
  tasks of class 1 in service is the number of arrivals of class 1 submitted so far
  minus the number of completions of class 1 submitted so far, likewise \<open>n_2\<close> for
  class 2, and neither count is negative.
\<close>

theorem occupancy_conservation:
  assumes "matched 0 0 xs"
  shows "\<forall>k \<le> length xs.
           (let s = submit_all T (take k xs) (SimpleCloudletCloudSystem_new w) in
              sys_n_1 s = arrivals_1 (take k xs) - completions_1 (take k xs) \<and>
              sys_n_2 s = arrivals_2 (take k xs) - completions_2 (take k xs) \<and>
              0 \<le> sys_n_1 s \<and> 0 \<le> sys_n_2 s)"
proof (intro allI impI)
  fix k
  assume "k \<le> length xs"
  let ?ys = "take k xs"
  let ?s = "submit_all T ?ys (SimpleCloudletCloudSystem_new w)"
  have n1: "sys_n_1 ?s = sum_list (map delta_1 ?ys)"
    and n2: "sys_n_2 ?s = sum_list (map delta_2 ?ys)"
    using submit_all_counters [of T ?ys "SimpleCloudletCloudSystem_new w"]
    by (simp_all add: SimpleCloudletCloudSystem_new_def)
  from assms have "matched 0 0 ?ys" by (rule matched_take)
  from matched_nonneg [OF this]
  have "0 \<le> sum_list (map delta_1 ?ys)" "0 \<le> sum_list (map delta_2 ?ys)" by simp_all
  then show "let s = ?s in
              sys_n_1 s = arrivals_1 ?ys - completions_1 ?ys \<and>
              sys_n_2 s = arrivals_2 ?ys - completions_2 ?ys \<and>
              0 \<le> sys_n_1 s \<and> 0 \<le> sys_n_2 s"
    unfolding Let_def n1 n2 by (simp add: delta_1_sum delta_2_sum)
qed

theorem occupancy_conservation_witness:
  "matched 0 0 example_submissions \<and>
   sys_n_1 (submit_all example_tiers example_submissions (SimpleCloudletCloudSystem_new (0, 0))) = 1 \<and>
   sys_n_2 (submit_all example_tiers example_submissions (SimpleCloudletCloudSystem_new (0, 0))) = 1 \<and>
   arrivals_1 example_submissions - completions_1 example_submissions = 1 \<and>
   arrivals_2 example_submissions - completions_2 example_submissions = 1"
proof -
  have m: "matched 0 0 example_submissions"
    by (simp add: example_submissions_def)
  have l: "(4::nat) \<le> length example_submissions" "take 4 example_submissions = example_submissions"
    by (simp_all add: example_submissions_def)
  have a: "arrivals_1 example_submissions - completions_1 example_submissions = 1"
    "arrivals_2 example_submissions - completions_2 example_submissions = 1"
    by (simp_all add: example_submissions_def arrivals_1_def completions_1_def
        arrivals_2_def completions_2_def)
  from occupancy_conservation [OF m, of example_tiers "(0, 0)", rule_format, OF l(1)]
  show ?thesis using m a unfolding l(2) Let_def by simp
qed

end
